theory Spec2Isabelle
  imports Complex_Main "HOL-Library.AList"
begin

section \<open>Values shared by the two services\<close>

text \<open>
  Python's \<open>float\<close> is kept abstract: it is the type parameter \<open>'p\<close>, and the
  operations the services use on it are the fields of a record that every function
  working with prices takes as its first argument. Nothing is assumed of these
  operations, so each theorem holds for IEEE double arithmetic as for any other.
  \<^item> \<open>fzero\<close> is \<open>float(0)\<close>;
  \<^item> \<open>fsum\<close> is the builtin \<open>sum\<close> on a sequence of floats that is not empty, started at
    the int \<open>0\<close>: additions from the left before CPython 3.12, and a sum with a
    compensation term for the rounding errors since, so that it is no fold of an addition;
  \<^item> \<open>fmul_int p q\<close> is \<open>p * q\<close> for a float \<open>p\<close> and an int \<open>q\<close>; Python first converts
    \<open>q\<close> to a float and raises \<open>OverflowError\<close> when it is too large (\<open>None\<close>);
  \<^item> \<open>ftruthy\<close> is the truth value of a float (\<open>False\<close> for zero).
\<close>

record 'p float_ops =
  fzero :: 'p
  fsum :: "'p list \<Rightarrow> 'p"
  fmul_int :: "'p \<Rightarrow> int \<Rightarrow> 'p option"
  ftruthy :: "'p \<Rightarrow> bool"

text \<open>A decoded JSON value; an object is a Python dict, kept as an association list.\<close>

datatype 'p json =
    JNull
  | JBool bool
  | JInt int
  | JFloat 'p
  | JStr string
  | JArr "'p json list"
  | JObj "(string \<times> 'p json) list"

text \<open>Python truthiness of a decoded value, as \<open>not v\<close> reads it.\<close>

fun truthy :: "'p float_ops \<Rightarrow> 'p json \<Rightarrow> bool" where
  "truthy F JNull = False"
| "truthy F (JBool b) = b"
| "truthy F (JInt i) = (i \<noteq> 0)"
| "truthy F (JFloat x) = ftruthy F x"
| "truthy F (JStr s) = (s \<noteq> [])"
| "truthy F (JArr xs) = (xs \<noteq> [])"
| "truthy F (JObj kvs) = (kvs \<noteq> [])"

text \<open>
  The exceptions that can leave a handler. \<open>HTTPException\<close> is FastAPI's, with its status
  code and detail; \<open>TimeoutException\<close> and \<open>RequestError\<close> (with its \<open>str\<close>) are httpx's
  transport errors; \<open>HTTPStatusError\<close> is what \<open>raise_for_status\<close> raises and is not a
  \<open>RequestError\<close>; the others are Python's own.
\<close>

datatype exn =
    HTTPException nat string
  | TimeoutException
  | RequestError string
  | HTTPStatusError nat
  | JSONDecodeError
  | AttributeError
  | KeyError
  | OverflowError

text \<open>\<open>get_tenant_id\<close>: the header is absent (\<open>None\<close>) or empty, or it is the tenant.\<close>

definition get_tenant_id :: "string option \<Rightarrow> exn + string" where
  "get_tenant_id x_tenant_id =
     (case x_tenant_id of
        None \<Rightarrow> Inl (HTTPException 400 ''X-Tenant-ID header required'')
      | Some t \<Rightarrow> if t = [] then Inl (HTTPException 400 ''X-Tenant-ID header required'')
                  else Inr t)"

section \<open>Catalog service\<close>

text \<open>
  \<open>menu_items\<close> is a dict from tenant to a list of item dicts. \<open>get_menu_item\<close> takes the
  first item of the tenant's list whose \<open>"id"\<close> equals the requested one; \<open>i["id"]\<close> raises
  \<open>KeyError\<close> on an item without that key.
\<close>

type_synonym 'p menu_item = "(string \<times> 'p json) list"

type_synonym 'p menu_items = "(string \<times> 'p menu_item list) list"

fun next_item :: "string \<Rightarrow> 'p menu_item list \<Rightarrow> exn + 'p menu_item option" where
  "next_item item_id [] = Inr None"
| "next_item item_id (i # rest) =
     (case map_of i ''id'' of
        None \<Rightarrow> Inl KeyError
      | Some v \<Rightarrow> if v = JStr item_id then Inr (Some i) else next_item item_id rest)"

definition get_menu_item :: "'p menu_items \<Rightarrow> string \<Rightarrow> string \<Rightarrow> exn + 'p menu_item" where
  "get_menu_item menu_items item_id tenant =
     (case map_of menu_items tenant of
        None \<Rightarrow> Inl (HTTPException 404 (''No menu for tenant: '' @ tenant))
      | Some its \<Rightarrow>
          (case next_item item_id its of
             Inl e \<Rightarrow> Inl e
           | Inr None \<Rightarrow> Inl (HTTPException 404 (''Item '' @ item_id @ '' not found''))
           | Inr (Some item) \<Rightarrow>
               if item = [] then Inl (HTTPException 404 (''Item '' @ item_id @ '' not found''))
               else Inr item))"

text \<open>
  The menu that \<open>_init_sample_data\<close> installs for the tenant \<open>forkflow-demo\<close>, with the
  decimal literals of the prices read as rationals. The inventory it installs beside the
  menu is read by no handler modelled here.
\<close>

definition init_sample_data :: "rat menu_items \<Rightarrow> rat menu_items" where
  "init_sample_data menu_items =
     AList.update ''forkflow-demo''
       [ [(''id'', JStr ''burger-001''), (''name'', JStr ''Classic Burger''),
          (''description'', JStr ''Beef patty with lettuce, tomato, onion''),
          (''category'', JStr ''burgers''), (''price'', JFloat 12.99),
          (''available'', JBool True), (''tenant_id'', JStr ''forkflow-demo'')],
         [(''id'', JStr ''pizza-001''), (''name'', JStr ''Margherita Pizza''),
          (''description'', JStr ''Fresh mozzarella, basil, tomato sauce''),
          (''category'', JStr ''pizza''), (''price'', JFloat 14.99),
          (''available'', JBool True), (''tenant_id'', JStr ''forkflow-demo'')],
         [(''id'', JStr ''salad-001''), (''name'', JStr ''Caesar Salad''),
          (''description'', JStr ''Romaine, parmesan, croutons, caesar dressing''),
          (''category'', JStr ''salads''), (''price'', JFloat 9.99),
          (''available'', JBool True), (''tenant_id'', JStr ''forkflow-demo'')] ]
       menu_items"

section \<open>Order service: data model\<close>

datatype OrderStatus = PENDING | CONFIRMED | PREPARING | READY | COMPLETED | CANCELLED

record 'p OrderItem =
  item_id :: string
  quantity :: int
  price :: 'p

record 'p CreateOrderRequest =
  items :: "'p OrderItem list"
  customer_name :: string
  table_number :: "int option"
  notes' :: "string option"

text \<open>
  An order. The fields that share a name with a field of the request carry the prefix
  \<open>order_\<close>; \<open>id\<close> is \<open>id'\<close> and the request's \<open>notes\<close> is \<open>notes'\<close>. A \<open>datetime\<close> is a
  reading of the wall clock, an integer number of microseconds.
\<close>

record 'p Order =
  id' :: string
  tenant_id :: string
  order_customer_name :: string
  order_table_number :: "int option"
  order_items :: "'p OrderItem list"
  total :: 'p
  status :: OrderStatus
  order_notes :: "string option"
  created_at :: int
  updated_at :: int

text \<open>
  \<open>orders\<close>, the module-level dict from tenant to a dict from order id to order. Both are
  association lists in insertion order, as a Python dict is: \<open>AList.update\<close> replaces the
  value of a key in place and appends a new key at the end.
\<close>

type_synonym 'p orders = "(string \<times> (string \<times> 'p Order) list) list"

section \<open>Order service: validation against the catalog\<close>

text \<open>
  What \<open>client.get\<close> gives: an exception, or a response with its status code and its body
  decoded as JSON (\<open>None\<close> when the body is not JSON). The client is a function of the
  number of requests issued on it so far, the tenant sent in \<open>X-Tenant-ID\<close> and the item id
  in the path, so the catalog may answer the same request differently each time.
\<close>

record 'p Response =
  status_code :: nat
  json_body :: "'p json option"

type_synonym 'p client = "nat \<Rightarrow> string \<Rightarrow> string \<Rightarrow> exn + 'p Response"

text \<open>\<open>raise_for_status\<close> of httpx: every status outside 2xx raises.\<close>

definition raise_for_status :: "'p Response \<Rightarrow> exn option" where
  "raise_for_status response =
     (if 200 \<le> status_code response \<and> status_code response < 300 then None
      else Some (HTTPStatusError (status_code response)))"

text \<open>
  The body of the loop once the response is there: the exception it raises, or \<open>None\<close>
  when the item passes. \<open>menu_item.get\<close> exists on a dict only.
\<close>

definition check_response :: "'p float_ops \<Rightarrow> 'p OrderItem \<Rightarrow> 'p Response \<Rightarrow> exn option" where
  "check_response F item response =
     (if status_code response = 404 then
        Some (HTTPException 400 (''Item '' @ item_id item @ '' not found in menu''))
      else
        (case raise_for_status response of
           Some e \<Rightarrow> Some e
         | None \<Rightarrow>
             (case json_body response of
                None \<Rightarrow> Some JSONDecodeError
              | Some (JObj menu_item) \<Rightarrow>
                  (case map_of menu_item ''available'' of
                     None \<Rightarrow>
                       Some (HTTPException 400 (''Item '' @ item_id item @ '' is not available''))
                   | Some v \<Rightarrow>
                       if \<not> truthy F v then
                         Some (HTTPException 400 (''Item '' @ item_id item @ '' is not available''))
                       else None)
              | Some _ \<Rightarrow> Some AttributeError)))"

text \<open>
  The \<open>for\<close> loop of \<open>validate_menu_items\<close>, with \<open>n\<close> requests issued before it. It
  returns what the loop raised or \<open>True\<close>, and the item ids it sent a request for, in the
  order of sending.
\<close>

fun validate_loop ::
  "'p float_ops \<Rightarrow> 'p client \<Rightarrow> string \<Rightarrow> nat \<Rightarrow> 'p OrderItem list \<Rightarrow> (exn + bool) \<times> string list"
where
  "validate_loop F get tenant n [] = (Inr True, [])"
| "validate_loop F get tenant n (item # rest) =
     (case get n tenant (item_id item) of
        Inl e \<Rightarrow> (Inl e, [item_id item])
      | Inr response \<Rightarrow>
          (case check_response F item response of
             Some e \<Rightarrow> (Inl e, [item_id item])
           | None \<Rightarrow>
               (case validate_loop F get tenant (Suc n) rest of
                  (r, sent) \<Rightarrow> (r, item_id item # sent))))"

text \<open>
  \<open>validate_menu_items\<close>: the loop inside \<open>try\<close>; the two \<open>except\<close> clauses turn a timeout
  and any other \<open>RequestError\<close> into a 503, and every other exception passes through.
\<close>

definition validate_menu_items ::
  "'p float_ops \<Rightarrow> 'p client \<Rightarrow> string \<Rightarrow> 'p OrderItem list \<Rightarrow> (exn + bool) \<times> string list"
where
  "validate_menu_items F get tenant its =
     (case validate_loop F get tenant 0 its of
        (Inl TimeoutException, sent) \<Rightarrow>
          (Inl (HTTPException 503 ''Catalog service unavailable (timeout)''), sent)
      | (Inl (RequestError e), sent) \<Rightarrow>
          (Inl (HTTPException 503 (''Catalog service unavailable: '' @ e)), sent)
      | (r, sent) \<Rightarrow> (r, sent))"

section \<open>Order service: the handlers\<close>

text \<open>
  The generator \<open>item.price * item.quantity for item in request.items\<close>: the products in
  the order of the lines, or the \<open>OverflowError\<close> of the first product that raises.
\<close>

fun line_products :: "'p float_ops \<Rightarrow> 'p OrderItem list \<Rightarrow> exn + 'p list" where
  "line_products F [] = Inr []"
| "line_products F (item # rest) =
     (case fmul_int F (price item) (quantity item) of
        None \<Rightarrow> Inl OverflowError
      | Some x \<Rightarrow>
          (case line_products F rest of
             Inl e \<Rightarrow> Inl e
           | Inr xs \<Rightarrow> Inr (x # xs)))"

text \<open>
  The builtin \<open>sum\<close> of floats as the field \<open>total\<close> keeps it: \<open>sum\<close> of nothing is the int
  \<open>0\<close>, which the \<open>Order\<close> model turns into \<open>float(0)\<close>.
\<close>

definition sum_builtin :: "'p float_ops \<Rightarrow> 'p list \<Rightarrow> 'p" where
  "sum_builtin F xs = (if xs = [] then fzero F else fsum F xs)"

text \<open>
  \<open>sum(item.price * item.quantity for item in request.items)\<close>. \<open>sum\<close> takes the products
  one at a time; adding floats raises nothing, so a product that raises ends the call
  whatever was added before it.
\<close>

definition sum_prices :: "'p float_ops \<Rightarrow> 'p OrderItem list \<Rightarrow> exn + 'p" where
  "sum_prices F its =
     (case line_products F its of
        Inl e \<Rightarrow> Inl e
      | Inr xs \<Rightarrow> Inr (sum_builtin F xs))"

text \<open>The three lines that store the order: the tenant's dict is created when absent.\<close>

definition store_order :: "string \<Rightarrow> string \<Rightarrow> 'p Order \<Rightarrow> 'p orders \<Rightarrow> 'p orders" where
  "store_order tenant order_id order orders =
     AList.map_entry tenant (AList.update order_id order)
       (if map_of orders tenant = None then AList.update tenant [] orders else orders)"

text \<open>
  \<open>create_order\<close>. \<open>order_id\<close> is the value of \<open>str(uuid.uuid4())\<close> and \<open>now\<close> that of
  \<open>datetime.now()\<close>. The result is the order returned or the exception raised, the item
  ids looked up in the catalog, and \<open>orders\<close> after the call.
\<close>

definition create_order ::
  "'p float_ops \<Rightarrow> 'p client \<Rightarrow> string \<Rightarrow> int \<Rightarrow> 'p CreateOrderRequest \<Rightarrow> string \<Rightarrow> 'p orders
   \<Rightarrow> (exn + 'p Order) \<times> string list \<times> 'p orders"
where
  "create_order F get order_id now request tenant orders =
     (case validate_menu_items F get tenant (items request) of
        (Inl e, sent) \<Rightarrow> (Inl e, sent, orders)
      | (Inr _, sent) \<Rightarrow>
          (case sum_prices F (items request) of
             Inl e \<Rightarrow> (Inl e, sent, orders)
           | Inr t \<Rightarrow>
               (let order = \<lparr> id' = order_id, tenant_id = tenant,
                              order_customer_name = customer_name request,
                              order_table_number = table_number request,
                              order_items = items request,
                              total = t,
                              status = PENDING,
                              order_notes = notes' request,
                              created_at = now, updated_at = now \<rparr>
                in (Inr order, sent, store_order tenant order_id order orders))))"

definition get_orders :: "'p orders \<Rightarrow> string \<Rightarrow> exn + 'p Order list" where
  "get_orders orders tenant =
     (case map_of orders tenant of
        None \<Rightarrow> Inr []
      | Some tenant_orders \<Rightarrow> Inr (map snd tenant_orders))"

definition get_order :: "'p orders \<Rightarrow> string \<Rightarrow> string \<Rightarrow> exn + 'p Order" where
  "get_order orders order_id tenant =
     (case map_of orders tenant of
        None \<Rightarrow> Inl (HTTPException 404 (''Order '' @ order_id @ '' not found''))
      | Some tenant_orders \<Rightarrow>
          (case map_of tenant_orders order_id of
             None \<Rightarrow> Inl (HTTPException 404 (''Order '' @ order_id @ '' not found''))
           | Some order \<Rightarrow> Inr order))"

text \<open>
  \<open>update_order_status\<close>. Its check, its 404 and the order it reads are those of
  \<open>get_order\<close>. It assigns to the two fields of the stored order object, so the order
  changes where it is in the dict. \<open>now\<close> is the value of \<open>datetime.now()\<close>.
\<close>

definition update_order_status ::
  "'p orders \<Rightarrow> int \<Rightarrow> string \<Rightarrow> OrderStatus \<Rightarrow> string \<Rightarrow> (exn + 'p Order) \<times> 'p orders"
where
  "update_order_status orders now order_id new_status tenant =
     (case get_order orders order_id tenant of
        Inl e \<Rightarrow> (Inl e, orders)
      | Inr order \<Rightarrow>
          (Inr (order\<lparr>status := new_status, updated_at := now\<rparr>),
           AList.map_entry tenant
             (AList.map_entry order_id (\<lambda>order. order\<lparr>status := new_status, updated_at := now\<rparr>))
             orders))"

section \<open>What the statements observe\<close>

text \<open>The order that \<open>orders\<close> holds under a tenant and an order id, if any.\<close>

definition stored :: "'p orders \<Rightarrow> string \<Rightarrow> string \<Rightarrow> 'p Order option" where
  "stored orders tenant order_id =
     (case map_of orders tenant of
        None \<Rightarrow> None
      | Some tenant_orders \<Rightarrow> map_of tenant_orders order_id)"

text \<open>
  Every stored order sits under its own tenant and its own id. It holds of the empty
  store and both mutating handlers keep it.
\<close>

definition store_inv :: "'p orders \<Rightarrow> bool" where
  "store_inv orders =
     list_all (\<lambda>(tenant, tenant_orders).
        list_all (\<lambda>(order_id, order). tenant_id order = tenant \<and> id' order = order_id)
          tenant_orders) orders"

text \<open>
  The three answers of the catalog to a lookup. An item is found when the status is 2xx
  and the body is an object; it is available when the value under \<open>"available"\<close> is
  truthy. Not found is the status 404.
\<close>

definition found_available :: "'p float_ops \<Rightarrow> exn + 'p Response \<Rightarrow> bool" where
  "found_available F out =
     (case out of
        Inl e \<Rightarrow> False
      | Inr response \<Rightarrow>
          200 \<le> status_code response \<and> status_code response < 300 \<and>
          (case json_body response of
             Some (JObj menu_item) \<Rightarrow>
               (case map_of menu_item ''available'' of None \<Rightarrow> False | Some v \<Rightarrow> truthy F v)
           | _ \<Rightarrow> False))"

definition found_unavailable :: "'p float_ops \<Rightarrow> exn + 'p Response \<Rightarrow> bool" where
  "found_unavailable F out =
     (case out of
        Inl e \<Rightarrow> False
      | Inr response \<Rightarrow>
          200 \<le> status_code response \<and> status_code response < 300 \<and>
          (case json_body response of
             Some (JObj menu_item) \<Rightarrow>
               (case map_of menu_item ''available'' of None \<Rightarrow> True | Some v \<Rightarrow> \<not> truthy F v)
           | _ \<Rightarrow> False))"

definition not_found :: "exn + 'p Response \<Rightarrow> bool" where
  "not_found out = (case out of Inl e \<Rightarrow> False | Inr response \<Rightarrow> status_code response = 404)"

section \<open>Concrete inputs\<close>

text \<open>Exact rational arithmetic as one reading of the float operations.\<close>

definition exact_ops :: "rat float_ops" where
  "exact_ops = \<lparr> fzero = 0, fsum = sum_list, fmul_int = (\<lambda>p q. Some (p * of_int q)),
                 ftruthy = (\<lambda>x. x \<noteq> 0) \<rparr>"

text \<open>
  An item id of letters, digits, \<open>-\<close> and \<open>_\<close> only, and not empty. The path
  \<open>/menu/<item id>\<close> carries such an id as it is; any other id may reach the catalog as
  another id, or another route.
\<close>

definition plain_id :: "string \<Rightarrow> bool" where
  "plain_id ident =
     (ident \<noteq> [] \<and>
      list_all
        (\<lambda>c. c \<in> set ''abcdefghijklmnopqrstuvwxyzABCDEFGHIJKLMNOPQRSTUVWXYZ0123456789-_'')
        ident)"

text \<open>
  A client for plain item ids, whose requests reach the catalog service: the item returned
  is the JSON body of a 200, an \<open>HTTPException\<close> is its status code with the detail as
  body, and any other exception is a 500 whose body is not JSON. It stands for no real
  client on an id that is not plain: there it sends nothing and raises a \<open>RequestError\<close>.
\<close>

definition catalog_client :: "'p menu_items \<Rightarrow> 'p client" where
  "catalog_client menu_items n tenant ident =
     (if \<not> plain_id ident then Inl (RequestError ''item id is not plain'')
      else
        (case (case get_tenant_id (Some tenant) of
                 Inl e \<Rightarrow> Inl e
               | Inr t \<Rightarrow> get_menu_item menu_items ident t) of
           Inr item \<Rightarrow> Inr \<lparr> status_code = 200, json_body = Some (JObj item) \<rparr>
         | Inl (HTTPException code detail) \<Rightarrow>
             Inr \<lparr> status_code = code, json_body = Some (JObj [(''detail'', JStr detail)]) \<rparr>
         | Inl _ \<Rightarrow> Inr \<lparr> status_code = 500, json_body = None \<rparr>))"

text \<open>The same client, except that request number \<open>k\<close> raises \<open>e\<close>.\<close>

definition failing_client :: "exn \<Rightarrow> nat \<Rightarrow> 'p client \<Rightarrow> 'p client" where
  "failing_client e k get n tenant ident = (if n = k then Inl e else get n tenant ident)"

definition sample_client :: "rat client" where
  "sample_client = catalog_client (init_sample_data [])"

text \<open>A menu of one tenant whose salad is sold out.\<close>

definition sold_out_menu :: "rat menu_items" where
  "sold_out_menu =
     [(''forkflow-demo'',
       [ [(''id'', JStr ''burger-001''), (''price'', JFloat 12.99), (''available'', JBool True)],
         [(''id'', JStr ''salad-001''), (''price'', JFloat 9.99), (''available'', JBool False)] ])]"

text \<open>A burger to install under one tenant, and the menu of another with a soup only.\<close>

definition burger_item :: "rat menu_item" where
  "burger_item =
     [(''id'', JStr ''burger-001''), (''price'', JFloat 12.99), (''available'', JBool True)]"

definition soup_item :: "rat menu_item" where
  "soup_item =
     [(''id'', JStr ''soup-001''), (''price'', JFloat 4.5), (''available'', JBool True)]"

definition soup_menu :: "rat menu_items" where
  "soup_menu = [(''soup-kitchen'', [soup_item])]"

definition burger_line :: "rat OrderItem" where
  "burger_line = \<lparr> item_id = ''burger-001'', quantity = 2, price = 12.99 \<rparr>"

definition pizza_line :: "rat OrderItem" where
  "pizza_line = \<lparr> item_id = ''pizza-001'', quantity = 1, price = 14.99 \<rparr>"

definition salad_line :: "rat OrderItem" where
  "salad_line = \<lparr> item_id = ''salad-001'', quantity = 1, price = 9.99 \<rparr>"

definition ghost_line :: "rat OrderItem" where
  "ghost_line = \<lparr> item_id = ''ghost-999'', quantity = 1, price = 5 \<rparr>"

definition burger_request :: "rat CreateOrderRequest" where
  "burger_request = \<lparr> items = [burger_line], customer_name = ''Ada'',
                      table_number = Some 4, notes' = None \<rparr>"

definition pizza_request :: "rat CreateOrderRequest" where
  "pizza_request = \<lparr> items = [pizza_line], customer_name = ''Grace'',
                     table_number = None, notes' = Some ''no basil'' \<rparr>"

definition ghost_request :: "rat CreateOrderRequest" where
  "ghost_request = \<lparr> items = [burger_line, ghost_line, pizza_line], customer_name = ''Ada'',
                     table_number = Some 4, notes' = None \<rparr>"

definition lunch_request :: "rat CreateOrderRequest" where
  "lunch_request = \<lparr> items = [burger_line, pizza_line, salad_line], customer_name = ''Alan'',
                     table_number = Some 7, notes' = None \<rparr>"

definition empty_request :: "rat CreateOrderRequest" where
  "empty_request = \<lparr> items = [], customer_name = ''Ada'', table_number = None,
                     notes' = None \<rparr>"

definition burger_order :: "rat Order" where
  "burger_order = \<lparr> id' = ''o1'', tenant_id = ''forkflow-demo'',
                    order_customer_name = ''Ada'', order_table_number = Some 4,
                    order_items = [burger_line], total = 25.98, status = PENDING,
                    order_notes = None, created_at = 10, updated_at = 10 \<rparr>"

definition pizza_order :: "rat Order" where
  "pizza_order = \<lparr> id' = ''o1'', tenant_id = ''forkflow-demo'',
                   order_customer_name = ''Grace'', order_table_number = None,
                   order_items = [pizza_line], total = 14.99, status = PENDING,
                   order_notes = Some ''no basil'', created_at = 20, updated_at = 20 \<rparr>"

definition lunch_order :: "rat Order" where
  "lunch_order = \<lparr> id' = ''o3'', tenant_id = ''forkflow-demo'',
                   order_customer_name = ''Alan'', order_table_number = Some 7,
                   order_items = [burger_line, pizza_line, salad_line], total = 50.96,
                   status = PENDING, order_notes = None, created_at = 30, updated_at = 30 \<rparr>"

definition empty_order :: "rat Order" where
  "empty_order = \<lparr> id' = ''o2'', tenant_id = ''forkflow-demo'',
                   order_customer_name = ''Ada'', order_table_number = None,
                   order_items = [], total = 0, status = PENDING,
                   order_notes = None, created_at = 20, updated_at = 20 \<rparr>"

definition burger_orders :: "rat orders" where
  "burger_orders = [(''forkflow-demo'', [(''o1'', burger_order)])]"

section \<open>The validation loop\<close>

lemma check_response_available:
  "found_available F (Inr response) \<Longrightarrow> check_response F item response = None"
  by (auto simp: found_available_def check_response_def raise_for_status_def
      split: option.splits json.splits)

lemma check_response_not_found:
  "not_found (Inr response) \<Longrightarrow>
   check_response F item response =
     Some (HTTPException 400 (''Item '' @ item_id item @ '' not found in menu''))"
  by (simp add: not_found_def check_response_def)

lemma check_response_unavailable:
  "found_unavailable F (Inr response) \<Longrightarrow>
   check_response F item response =
     Some (HTTPException 400 (''Item '' @ item_id item @ '' is not available''))"
  by (auto simp: found_unavailable_def check_response_def raise_for_status_def
      split: option.splits json.splits)

text \<open>Lines that are found and available are passed over, one request each.\<close>

lemma validate_loop_prefix:
  "\<forall>k<length pre. found_available F (get (n + k) tenant (item_id (pre ! k))) \<Longrightarrow>
   validate_loop F get tenant n (pre @ rest) =
     (case validate_loop F get tenant (n + length pre) rest of
        (r, sent) \<Rightarrow> (r, map item_id pre @ sent))"
proof (induction pre arbitrary: n)
  case Nil
  then show ?case by simp
next
  case (Cons item pre)
  from Cons.prems have first: "found_available F (get n tenant (item_id item))"
    by fastforce
  then obtain response where r: "get n tenant (item_id item) = Inr response"
    by (cases "get n tenant (item_id item)") (simp_all add: found_available_def)
  with first have c: "check_response F item response = None"
    by (simp add: check_response_available)
  have "\<forall>k<length pre. found_available F (get (Suc n + k) tenant (item_id (pre ! k)))"
  proof (intro allI impI)
    fix k assume "k < length pre"
    with Cons.prems
    have "found_available F (get (n + Suc k) tenant (item_id ((item # pre) ! Suc k)))"
      by (metis Suc_less_eq length_Cons)
    then show "found_available F (get (Suc n + k) tenant (item_id (pre ! k)))" by simp
  qed
  from Cons.IH [OF this] show ?case
    by (simp add: r c split: prod.splits)
qed

lemma validate_loop_from_start:
  assumes "\<forall>k<length pre. found_available F (get k tenant (item_id (pre ! k)))"
  shows "validate_loop F get tenant 0 (pre @ rest) =
           (case validate_loop F get tenant (length pre) rest of
              (r, sent) \<Rightarrow> (r, map item_id pre @ sent))"
  using assms validate_loop_prefix [where n = 0 and pre = pre and F = F and get = get
      and tenant = tenant and rest = rest]
  by simp

lemma validate_loop_sent_prefix:
  "take (length (snd (validate_loop F get tenant n its))) (map item_id its) =
     snd (validate_loop F get tenant n its)"
proof (induction its arbitrary: n)
  case Nil
  then show ?case by simp
next
  case (Cons item rest)
  from Cons.IH [of "Suc n"] show ?case
    by (cases "validate_loop F get tenant (Suc n) rest")
       (simp split: sum.splits option.splits)
qed

lemma snd_validate_menu_items:
  "snd (validate_menu_items F get tenant its) = snd (validate_loop F get tenant 0 its)"
  by (auto simp: validate_menu_items_def split: prod.splits sum.splits exn.splits)

section \<open>The store\<close>

lemma get_order_stored:
  "get_order orders order_id tenant =
     (case stored orders tenant order_id of
        None \<Rightarrow> Inl (HTTPException 404 (''Order '' @ order_id @ '' not found''))
      | Some order \<Rightarrow> Inr order)"
  by (simp add: get_order_def stored_def split: option.splits)

lemma map_of_store_order:
  "map_of (store_order tenant order_id order orders) =
     (map_of orders)(tenant \<mapsto>
        AList.update order_id order (case map_of orders tenant of None \<Rightarrow> [] | Some d \<Rightarrow> d))"
  by (auto simp: store_order_def AList.map_of_map_entry AList.update_conv' fun_eq_iff
      split: option.splits)

lemma stored_store_order:
  "stored (store_order tenant order_id order orders) t k =
     (if t = tenant \<and> k = order_id then Some order else stored orders t k)"
  by (auto simp: stored_def map_of_store_order AList.update_conv' split: option.splits)

lemma stored_map_entry:
  "stored (AList.map_entry tenant (AList.map_entry order_id f) orders) t k =
     (if t = tenant \<and> k = order_id then map_option f (stored orders t k) else stored orders t k)"
  by (auto simp: stored_def AList.map_of_map_entry split: option.splits)

lemma get_orders_store_order_other:
  "t \<noteq> tenant \<Longrightarrow> get_orders (store_order tenant order_id order orders) t = get_orders orders t"
  by (simp add: get_orders_def map_of_store_order)

lemma no_stored_order_empty:
  assumes "\<forall>k. map_of d k = None"
  shows "d = []"
proof (cases d)
  case Nil
  then show ?thesis .
next
  case (Cons p ps)
  with assms [rule_format, of "fst p"] show ?thesis by simp
qed

text \<open>\<open>create_order\<close> either raises and leaves \<open>orders\<close>, or stores the order it returns.\<close>

lemma create_order_cases:
  "create_order F get order_id now request tenant orders = (r, sent, orders') \<Longrightarrow>
   (\<exists>e. r = Inl e \<and> orders' = orders) \<or>
   (\<exists>t. r = Inr \<lparr> id' = order_id, tenant_id = tenant,
                   order_customer_name = customer_name request,
                   order_table_number = table_number request,
                   order_items = items request, total = t, status = PENDING,
                   order_notes = notes' request, created_at = now, updated_at = now \<rparr>
        \<and> (\<exists>b. fst (validate_menu_items F get tenant (items request)) = Inr b)
        \<and> sum_prices F (items request) = Inr t
        \<and> orders' = store_order tenant order_id
             \<lparr> id' = order_id, tenant_id = tenant,
               order_customer_name = customer_name request,
               order_table_number = table_number request,
               order_items = items request, total = t, status = PENDING,
               order_notes = notes' request, created_at = now, updated_at = now \<rparr> orders)"
  by (auto simp: create_order_def Let_def split: prod.splits sum.splits)

lemma create_order_propagates:
  "fst (validate_menu_items F get tenant (items request)) = Inl e \<Longrightarrow>
   create_order F get order_id now request tenant orders =
     (Inl e, snd (validate_menu_items F get tenant (items request)), orders)"
  by (cases "validate_menu_items F get tenant (items request)") (simp add: create_order_def)


lemma line_products_raises:
  "line_products F its = Inl e \<Longrightarrow> e = OverflowError"
  by (induction its) (auto split: option.splits sum.splits)

lemma sum_prices_raises:
  "sum_prices F its = Inl e \<Longrightarrow> e = OverflowError"
  by (auto simp: sum_prices_def split: sum.splits dest: line_products_raises)

text \<open>Apart from the overflow of a product, \<open>create_order\<close> raises nothing of its own.\<close>

lemma create_order_raises:
  assumes "fst (create_order F get order_id now request tenant orders) = Inl e"
  shows "fst (validate_menu_items F get tenant (items request)) = Inl e \<or> e = OverflowError"
proof (cases "validate_menu_items F get tenant (items request)")
  case (Pair r sent)
  show ?thesis
  proof (cases r)
    case (Inl e')
    with Pair assms show ?thesis by (simp add: create_order_def)
  next
    case (Inr b)
    with Pair assms show ?thesis
      by (cases "sum_prices F (items request)")
         (auto simp: create_order_def Let_def dest: sum_prices_raises)
  qed
qed



subsection \<open>The invariant of the store\<close>

lemma list_all_update:
  "list_all P al \<Longrightarrow> P (k, v) \<Longrightarrow> list_all P (AList.update k v al)"
  by (induction al) auto

lemma list_all_map_entry:
  "list_all P al \<Longrightarrow> (\<And>v. P (k, v) \<Longrightarrow> P (k, f v)) \<Longrightarrow> list_all P (AList.map_entry k f al)"
  by (induction al) auto

lemma store_inv_Nil: "store_inv []"
  by (simp add: store_inv_def)

lemma store_inv_store_order:
  assumes "store_inv orders" and "tenant_id order = tenant" and "id' order = order_id"
  shows "store_inv (store_order tenant order_id order orders)"
  unfolding store_inv_def store_order_def
  using assms
  by (auto intro!: list_all_map_entry list_all_update simp: store_inv_def)

lemma store_inv_create_order:
  assumes "store_inv orders"
  shows "store_inv (snd (snd (create_order F get order_id now request tenant orders)))"
proof -
  obtain r sent orders' where c:
    "create_order F get order_id now request tenant orders = (r, sent, orders')"
    by (cases "create_order F get order_id now request tenant orders") auto
  from create_order_cases [OF c] assms show ?thesis
    by (auto simp: c intro!: store_inv_store_order)
qed

lemma store_inv_update_order_status:
  assumes "store_inv orders"
  shows "store_inv (snd (update_order_status orders now order_id new_status tenant))"
  using assms unfolding store_inv_def update_order_status_def
  by (auto split: sum.splits intro!: list_all_map_entry)

lemma store_inv_listed:
  assumes "store_inv orders" and "map_of orders t = Some d" and "order \<in> set (map snd d)"
  shows "tenant_id order = t"
proof -
  from assms(2) have "(t, d) \<in> set orders" by (rule map_of_SomeD)
  with assms(1)
  have "list_all (\<lambda>(order_id, order). tenant_id order = t \<and> id' order = order_id) d"
    by (auto simp: store_inv_def list_all_iff)
  with assms(3) show ?thesis by (auto simp: list_all_iff)
qed

lemma get_menu_item_other_tenant:
  "A \<noteq> B \<Longrightarrow> get_menu_item (AList.update A its menu_items) x B = get_menu_item menu_items x B"
  by (simp add: get_menu_item_def AList.update_conv')

subsection \<open>Unfolding the concrete inputs\<close>

lemmas catalog_defs =
  sample_client_def catalog_client_def failing_client_def init_sample_data_def
  sold_out_menu_def soup_menu_def soup_item_def burger_item_def get_menu_item_def
  get_tenant_id_def plain_id_def

lemmas line_defs =
  burger_line_def pizza_line_def salad_line_def ghost_line_def

lemmas request_defs =
  burger_request_def pizza_request_def ghost_request_def lunch_request_def empty_request_def

lemmas order_defs =
  burger_order_def pizza_order_def lunch_order_def empty_order_def burger_orders_def

lemmas handler_defs =
  validate_menu_items_def check_response_def raise_for_status_def create_order_def
  store_order_def sum_prices_def sum_builtin_def exact_ops_def Let_def

section \<open>Order creation\<close>

text \<open>
  Claim C1. Whenever \<open>create_order\<close> raises, \<open>orders\<close> after the call is \<open>orders\<close> before
  it. That covers the 400 of a line that is not found or not available and the 503 of a
  catalog that timed out or could not be reached, as it covers every other exception:
  nothing is stored for a failed attempt.
\<close>

theorem failed_create_leaves_store:
  assumes "fst (create_order F get order_id now request tenant orders) = Inl e"
  shows "snd (snd (create_order F get order_id now request tenant orders)) = orders"
proof -
  obtain r sent orders' where c:
    "create_order F get order_id now request tenant orders = (r, sent, orders')"
    by (cases "create_order F get order_id now request tenant orders") auto
  from create_order_cases [OF c] assms c show ?thesis by auto
qed

text \<open>
  A request with an unknown item against the sample menu, and a request whose only
  lookup times out: both leave the store with its one order.
\<close>

theorem failed_create_leaves_store_witness:
  "fst (create_order exact_ops sample_client ''o2'' 20 ghost_request ''forkflow-demo''
          burger_orders) = Inl (HTTPException 400 ''Item ghost-999 not found in menu'')
   \<and> snd (snd (create_order exact_ops sample_client ''o2'' 20 ghost_request ''forkflow-demo''
          burger_orders)) = burger_orders
   \<and> fst (create_order exact_ops (failing_client TimeoutException 0 sample_client) ''o2'' 20
          burger_request ''forkflow-demo'' burger_orders) =
       Inl (HTTPException 503 ''Catalog service unavailable (timeout)'')
   \<and> snd (snd (create_order exact_ops (failing_client TimeoutException 0 sample_client) ''o2'' 20
          burger_request ''forkflow-demo'' burger_orders)) = burger_orders"
proof -
  have a: "fst (create_order exact_ops sample_client ''o2'' 20 ghost_request ''forkflow-demo''
      burger_orders) = Inl (HTTPException 400 ''Item ghost-999 not found in menu'')"
    by (simp add: handler_defs catalog_defs line_defs request_defs)
  have b: "fst (create_order exact_ops (failing_client TimeoutException 0 sample_client) ''o2'' 20
      burger_request ''forkflow-demo'' burger_orders) =
      Inl (HTTPException 503 ''Catalog service unavailable (timeout)'')"
    by (simp add: handler_defs catalog_defs line_defs request_defs)
  from a b failed_create_leaves_store [OF a] failed_create_leaves_store [OF b]
  show ?thesis by simp
qed

text \<open>
  Claim C2. The requests that validation sends are a prefix of the lines, in their order.
  When the lines before \<open>x\<close> are all found and available, a lookup of \<open>x\<close> that is not found,
  or found and not available, ends validation with a 400 whose detail carries the item id
  of \<open>x\<close>, and no request is sent for a line after \<open>x\<close>; when all lines are found and
  available, validation returns \<open>True\<close> after one request for each.
\<close>

theorem validate_sequential_short_circuit:
  assumes ok: "\<forall>k<length pre. found_available F (get k tenant (item_id (pre ! k)))"
  shows "take (length (snd (validate_menu_items F get tenant its))) (map item_id its) =
           snd (validate_menu_items F get tenant its)
       \<and> (not_found (get (length pre) tenant (item_id x)) \<longrightarrow>
            validate_menu_items F get tenant (pre @ x # post) =
              (Inl (HTTPException 400 (''Item '' @ item_id x @ '' not found in menu'')),
               map item_id pre @ [item_id x]))
       \<and> (found_unavailable F (get (length pre) tenant (item_id x)) \<longrightarrow>
            validate_menu_items F get tenant (pre @ x # post) =
              (Inl (HTTPException 400 (''Item '' @ item_id x @ '' is not available'')),
               map item_id pre @ [item_id x]))
       \<and> validate_menu_items F get tenant pre = (Inr True, map item_id pre)"
proof (intro conjI impI)
  show "take (length (snd (validate_menu_items F get tenant its))) (map item_id its) =
          snd (validate_menu_items F get tenant its)"
    by (simp only: snd_validate_menu_items validate_loop_sent_prefix)
next
  note pre = validate_loop_from_start [where get = get and tenant = tenant and pre = pre
      and F = F, OF ok]
  {
    assume "not_found (get (length pre) tenant (item_id x))"
    then obtain response where r: "get (length pre) tenant (item_id x) = Inr response"
      and nf: "not_found (Inr response :: exn + 'a Response)"
      by (cases "get (length pre) tenant (item_id x)") (simp_all add: not_found_def)
    from check_response_not_found [OF nf, of F x]
    show "validate_menu_items F get tenant (pre @ x # post) =
            (Inl (HTTPException 400 (''Item '' @ item_id x @ '' not found in menu'')),
             map item_id pre @ [item_id x])"
      by (simp add: validate_menu_items_def pre r)
  }
  {
    assume "found_unavailable F (get (length pre) tenant (item_id x))"
    then obtain response where r: "get (length pre) tenant (item_id x) = Inr response"
      and un: "found_unavailable F (Inr response)"
      by (cases "get (length pre) tenant (item_id x)") (simp_all add: found_unavailable_def)
    from check_response_unavailable [OF un, of x]
    show "validate_menu_items F get tenant (pre @ x # post) =
            (Inl (HTTPException 400 (''Item '' @ item_id x @ '' is not available'')),
             map item_id pre @ [item_id x])"
      by (simp add: validate_menu_items_def pre r)
  }
  from pre [of "[]"] show "validate_menu_items F get tenant pre = (Inr True, map item_id pre)"
    by (simp add: validate_menu_items_def)
qed

text \<open>
  Against the sample menu the burger passes, the unknown item stops validation and the
  pizza after it is never looked up; against the menu with the sold-out salad the salad
  stops it.
\<close>

theorem validate_sequential_short_circuit_witness:
  "found_available exact_ops (sample_client 0 ''forkflow-demo'' ''burger-001'')
   \<and> not_found (sample_client 1 ''forkflow-demo'' ''ghost-999'')
   \<and> validate_menu_items exact_ops sample_client ''forkflow-demo''
        [burger_line, ghost_line, pizza_line] =
       (Inl (HTTPException 400 ''Item ghost-999 not found in menu''),
        [''burger-001'', ''ghost-999''])
   \<and> found_unavailable exact_ops
        (catalog_client sold_out_menu 1 ''forkflow-demo'' ''salad-001'')
   \<and> validate_menu_items exact_ops (catalog_client sold_out_menu) ''forkflow-demo''
        [burger_line, salad_line, burger_line] =
       (Inl (HTTPException 400 ''Item salad-001 is not available''),
        [''burger-001'', ''salad-001''])
   \<and> validate_menu_items exact_ops sample_client ''forkflow-demo'' [burger_line] =
       (Inr True, [''burger-001''])"
proof -
  have h1: "\<forall>k<length [burger_line].
      found_available exact_ops (sample_client k ''forkflow-demo'' (item_id ([burger_line] ! k)))"
    by (simp add: found_available_def catalog_defs line_defs)
  have h2: "\<forall>k<length [burger_line].
      found_available exact_ops
        (catalog_client sold_out_menu k ''forkflow-demo'' (item_id ([burger_line] ! k)))"
    by (simp add: found_available_def catalog_defs line_defs)
  have n: "not_found (sample_client 1 ''forkflow-demo'' ''ghost-999'')"
    by (simp add: not_found_def catalog_defs)
  have u: "found_unavailable exact_ops
      (catalog_client sold_out_menu 1 ''forkflow-demo'' ''salad-001'')"
    by (simp add: found_unavailable_def catalog_defs)
  from h1 n u
    validate_sequential_short_circuit [where get = sample_client and F = exact_ops
      and tenant = "''forkflow-demo''" and pre = "[burger_line]" and x = ghost_line
      and post = "[pizza_line]", OF h1]
    validate_sequential_short_circuit [where get = "catalog_client sold_out_menu"
      and F = exact_ops and tenant = "''forkflow-demo''" and pre = "[burger_line]"
      and x = salad_line and post = "[burger_line]", OF h2]
  show ?thesis by (simp add: line_defs)
qed

text \<open>
  Claim C3. When the lines before \<open>x\<close> are found and available and the request for \<open>x\<close>
  times out, validation raises the 503 with detail \<open>Catalog service unavailable (timeout)\<close>;
  when that request fails with any other \<open>RequestError\<close>, it raises the 503 whose detail
  ends with the text of the error. Both have the status 503, where a rejected line has
  the status 400. Whatever validation raises, \<open>create_order\<close> raises the same, and an
  \<open>HTTPException\<close> that \<open>create_order\<close> raises is the one that validation raised.
\<close>

theorem unavailable_distinct_and_propagated:
  assumes ok: "\<forall>k<length pre. found_available F (get k tenant (item_id (pre ! k)))"
  shows "(get (length pre) tenant (item_id x) = Inl TimeoutException \<longrightarrow>
            fst (validate_menu_items F get tenant (pre @ x # post)) =
              Inl (HTTPException 503 ''Catalog service unavailable (timeout)''))
       \<and> (get (length pre) tenant (item_id x) = Inl (RequestError detail) \<longrightarrow>
            fst (validate_menu_items F get tenant (pre @ x # post)) =
              Inl (HTTPException 503 (''Catalog service unavailable: '' @ detail)))
       \<and> (fst (validate_menu_items F get tenant (items request)) = Inl e \<longrightarrow>
            fst (create_order F get order_id now request tenant orders) = Inl e)
       \<and> (fst (create_order F get order_id now request tenant orders) =
            Inl (HTTPException code reason) \<longrightarrow>
            fst (validate_menu_items F get tenant (items request)) =
              Inl (HTTPException code reason))"
proof (intro conjI impI)
  note pre = validate_loop_from_start [where get = get and tenant = tenant and pre = pre
      and F = F, OF ok]
  {
    assume "fst (create_order F get order_id now request tenant orders) =
      Inl (HTTPException code reason)"
    from create_order_raises [OF this]
    show "fst (validate_menu_items F get tenant (items request)) =
      Inl (HTTPException code reason)"
      by simp
  }
  {
    assume "get (length pre) tenant (item_id x) = Inl TimeoutException"
    then show "fst (validate_menu_items F get tenant (pre @ x # post)) =
                 Inl (HTTPException 503 ''Catalog service unavailable (timeout)'')"
      by (simp add: validate_menu_items_def pre)
  }
  {
    assume "get (length pre) tenant (item_id x) = Inl (RequestError detail)"
    then show "fst (validate_menu_items F get tenant (pre @ x # post)) =
                 Inl (HTTPException 503 (''Catalog service unavailable: '' @ detail))"
      by (simp add: validate_menu_items_def pre)
  }
  assume "fst (validate_menu_items F get tenant (items request)) = Inl e"
  then show "fst (create_order F get order_id now request tenant orders) = Inl e"
    by (simp add: create_order_propagates)
qed

text \<open>
  The second request of an order of a burger, an unknown item and a pizza times out, or
  is refused: the 503 is what \<open>create_order\<close> raises, although the unknown item would have
  been a 400.
\<close>

theorem unavailable_distinct_and_propagated_witness:
  "found_available exact_ops
     (failing_client TimeoutException 1 sample_client 0 ''forkflow-demo'' ''burger-001'')
   \<and> failing_client TimeoutException 1 sample_client 1 ''forkflow-demo'' ''ghost-999'' =
       Inl TimeoutException
   \<and> fst (validate_menu_items exact_ops (failing_client TimeoutException 1 sample_client)
        ''forkflow-demo'' [burger_line, ghost_line, pizza_line]) =
       Inl (HTTPException 503 ''Catalog service unavailable (timeout)'')
   \<and> fst (create_order exact_ops (failing_client TimeoutException 1 sample_client) ''o2'' 20
        ghost_request ''forkflow-demo'' burger_orders) =
       Inl (HTTPException 503 ''Catalog service unavailable (timeout)'')
   \<and> fst (validate_menu_items exact_ops
        (failing_client (RequestError ''All connection attempts failed'') 1 sample_client)
        ''forkflow-demo'' [burger_line, ghost_line, pizza_line]) =
       Inl (HTTPException 503 ''Catalog service unavailable: All connection attempts failed'')"
proof -
  have h1: "\<forall>k<length [burger_line].
      found_available exact_ops
        (failing_client TimeoutException 1 sample_client k ''forkflow-demo''
           (item_id ([burger_line] ! k)))"
    by (simp add: found_available_def catalog_defs line_defs)
  have h2: "\<forall>k<length [burger_line].
      found_available exact_ops
        (failing_client (RequestError ''All connection attempts failed'') 1 sample_client k
           ''forkflow-demo'' (item_id ([burger_line] ! k)))"
    by (simp add: found_available_def catalog_defs line_defs)
  have t: "failing_client TimeoutException 1 sample_client 1 ''forkflow-demo'' ''ghost-999'' =
      Inl TimeoutException"
    by (simp add: failing_client_def)
  have r: "failing_client (RequestError ''All connection attempts failed'') 1 sample_client 1
      ''forkflow-demo'' ''ghost-999'' = Inl (RequestError ''All connection attempts failed'')"
    by (simp add: failing_client_def)
  have i: "items ghost_request = [burger_line] @ ghost_line # [pizza_line]"
    by (simp add: ghost_request_def)
  from h1 t r i
    unavailable_distinct_and_propagated [where get = "failing_client TimeoutException 1 sample_client"
      and F = exact_ops and tenant = "''forkflow-demo''" and pre = "[burger_line]"
      and x = ghost_line and post = "[pizza_line]" and request = ghost_request
      and e = "HTTPException 503 ''Catalog service unavailable (timeout)''"
      and order_id = "''o2''" and now = 20 and orders = burger_orders, OF h1]
    unavailable_distinct_and_propagated [where
      get = "failing_client (RequestError ''All connection attempts failed'') 1 sample_client"
      and F = exact_ops and tenant = "''forkflow-demo''" and pre = "[burger_line]"
      and x = ghost_line and post = "[pizza_line]"
      and detail = "''All connection attempts failed''", OF h2]
  show ?thesis by (simp add: line_defs)
qed



text \<open>
  Claim C5, as the code has it. Storing an order never fails: afterwards the store holds
  that order under its tenant and id, whether or not an order with that id was there
  before (an order that was there is replaced), and what the store holds under every
  other tenant or id is as before.
\<close>

theorem insert_never_fails_and_replaces:
  "stored (store_order tenant order_id order orders) tenant order_id = Some order
   \<and> (\<forall>t k. (t, k) \<noteq> (tenant, order_id) \<longrightarrow>
         stored (store_order tenant order_id order orders) t k = stored orders t k)"
  by (simp add: stored_store_order)

text \<open>
  Storing the pizza order under the id of the burger order replaces the burger order and
  leaves what is held under another id as it was.
\<close>

theorem insert_never_fails_and_replaces_witness:
  "stored burger_orders ''forkflow-demo'' ''o1'' = Some burger_order
   \<and> stored (store_order ''forkflow-demo'' ''o1'' pizza_order burger_orders)
        ''forkflow-demo'' ''o1'' = Some pizza_order
   \<and> (''forkflow-demo'', ''o2'') \<noteq> (''forkflow-demo'', ''o1'')
   \<and> stored (store_order ''forkflow-demo'' ''o1'' pizza_order burger_orders)
        ''forkflow-demo'' ''o2'' = stored burger_orders ''forkflow-demo'' ''o2''"
proof -
  have a: "stored burger_orders ''forkflow-demo'' ''o1'' = Some burger_order"
    by (simp add: stored_def order_defs)
  have b: "(''forkflow-demo'', ''o2'') \<noteq> (''forkflow-demo'', ''o1'')"
    by simp
  note t = insert_never_fails_and_replaces [of "''forkflow-demo''" "''o1''" pizza_order
      burger_orders]
  from t have r: "stored (store_order ''forkflow-demo'' ''o1'' pizza_order burger_orders)
      ''forkflow-demo'' ''o1'' = Some pizza_order"
    by (rule conjunct1)
  from t have "\<forall>t k. (t, k) \<noteq> (''forkflow-demo'', ''o1'') \<longrightarrow>
      stored (store_order ''forkflow-demo'' ''o1'' pizza_order burger_orders) t k =
      stored burger_orders t k"
    by (rule conjunct2)
  from this [rule_format, of "''forkflow-demo''" "''o2''", OF b]
  have o: "stored (store_order ''forkflow-demo'' ''o1'' pizza_order burger_orders)
      ''forkflow-demo'' ''o2'' = stored burger_orders ''forkflow-demo'' ''o2''" .
  from a b r o show ?thesis by (intro conjI)
qed

text \<open>
  The store holds the burger order under \<open>o1\<close>; a second creation for which the id
  generator returns \<open>o1\<close> again succeeds, and the store then holds the pizza order there.
\<close>

theorem duplicate_id_insert_counterexample:
  "stored burger_orders ''forkflow-demo'' ''o1'' = Some burger_order
   \<and> create_order exact_ops sample_client ''o1'' 20 pizza_request ''forkflow-demo''
        burger_orders =
       (Inr pizza_order, [''pizza-001''], [(''forkflow-demo'', [(''o1'', pizza_order)])])
   \<and> pizza_order \<noteq> burger_order"
  by (simp add: stored_def handler_defs catalog_defs line_defs request_defs order_defs)

text \<open>
  Claim C6, as the code has it. A request without lines is not rejected: no lookup is
  sent, and the order with no lines, the total float zero and the status \<open>PENDING\<close> is
  returned and stored.
\<close>

theorem empty_order_is_created:
  assumes "items request = []"
  shows "create_order F get order_id now request tenant orders =
           (Inr \<lparr> id' = order_id, tenant_id = tenant,
                  order_customer_name = customer_name request,
                  order_table_number = table_number request,
                  order_items = [], total = fzero F, status = PENDING,
                  order_notes = notes' request, created_at = now, updated_at = now \<rparr>,
            [],
            store_order tenant order_id
              \<lparr> id' = order_id, tenant_id = tenant,
                order_customer_name = customer_name request,
                order_table_number = table_number request,
                order_items = [], total = fzero F, status = PENDING,
                order_notes = notes' request, created_at = now, updated_at = now \<rparr> orders)"
  using assms
  by (simp add: create_order_def validate_menu_items_def sum_prices_def sum_builtin_def Let_def)

theorem empty_order_is_created_witness:
  "items empty_request = []
   \<and> create_order exact_ops sample_client ''o2'' 20 empty_request ''forkflow-demo''
        burger_orders =
       (Inr empty_order, [], store_order ''forkflow-demo'' ''o2'' empty_order burger_orders)"
proof -
  have h: "items empty_request = []"
    by (simp add: empty_request_def)
  from h empty_order_is_created [OF h, of exact_ops sample_client "''o2''" 20 "''forkflow-demo''"
      burger_orders]
  show ?thesis by (simp add: empty_request_def empty_order_def exact_ops_def)
qed

text \<open>
  The request without lines against the empty store: an order is returned and the store
  holds it afterwards.
\<close>

theorem empty_lines_counterexample:
  "items empty_request = []
   \<and> create_order exact_ops sample_client ''o2'' 20 empty_request ''forkflow-demo'' [] =
       (Inr empty_order, [], [(''forkflow-demo'', [(''o2'', empty_order)])])"
  by (simp add: handler_defs request_defs order_defs)

section \<open>Status updates and reads\<close>

text \<open>
  Claim C7, as the code has it. For a stored order and any new status, whatever the
  current one, \<open>update_order_status\<close> returns and stores the order with the status replaced
  and \<open>updated_at\<close> set to the reading of the clock taken in the call, so that \<open>updated_at\<close>
  is greater than before exactly when that reading is; every other field is as before.
\<close>

theorem update_status_replaces_status_and_clock:
  assumes "stored orders tenant order_id = Some order"
  shows "fst (update_order_status orders now order_id new_status tenant) =
           Inr (order\<lparr>status := new_status, updated_at := now\<rparr>)
       \<and> stored (snd (update_order_status orders now order_id new_status tenant)) tenant order_id =
           Some (order\<lparr>status := new_status, updated_at := now\<rparr>)
       \<and> (\<forall>order'. fst (update_order_status orders now order_id new_status tenant) = Inr order' \<longrightarrow>
            status order' = new_status \<and> updated_at order' = now
          \<and> (updated_at order < updated_at order' \<longleftrightarrow> updated_at order < now)
          \<and> id' order' = id' order \<and> tenant_id order' = tenant_id order
          \<and> order_customer_name order' = order_customer_name order
          \<and> order_table_number order' = order_table_number order
          \<and> order_items order' = order_items order \<and> total order' = total order
          \<and> order_notes order' = order_notes order \<and> created_at order' = created_at order)"
  using assms
  by (simp add: update_order_status_def get_order_stored stored_map_entry)

text \<open>
  The burger order, last updated at 10, is completed at 30 without having been confirmed,
  prepared or ready.
\<close>

theorem update_status_replaces_status_and_clock_witness:
  "stored burger_orders ''forkflow-demo'' ''o1'' = Some burger_order
   \<and> fst (update_order_status burger_orders 30 ''o1'' COMPLETED ''forkflow-demo'') =
       Inr (burger_order\<lparr>status := COMPLETED, updated_at := 30\<rparr>)
   \<and> stored (snd (update_order_status burger_orders 30 ''o1'' COMPLETED ''forkflow-demo''))
        ''forkflow-demo'' ''o1'' = Some (burger_order\<lparr>status := COMPLETED, updated_at := 30\<rparr>)
   \<and> updated_at burger_order < updated_at (burger_order\<lparr>status := COMPLETED, updated_at := 30\<rparr>)"
proof -
  have h: "stored burger_orders ''forkflow-demo'' ''o1'' = Some burger_order"
    by (simp add: stored_def order_defs)
  have u: "updated_at burger_order < updated_at (burger_order\<lparr>status := COMPLETED, updated_at := 30\<rparr>)"
    by (simp add: burger_order_def)
  from h u update_status_replaces_status_and_clock [OF h, of 30 COMPLETED]
  show ?thesis by blast
qed

text \<open>
  The clock reads 10 again when the burger order, last updated at 10, is confirmed: the
  order returned has the \<open>updated_at\<close> it had.
\<close>

theorem updated_at_not_greater_counterexample:
  "stored burger_orders ''forkflow-demo'' ''o1'' = Some burger_order
   \<and> fst (update_order_status burger_orders 10 ''o1'' CONFIRMED ''forkflow-demo'') =
       Inr (burger_order\<lparr>status := CONFIRMED\<rparr>)
   \<and> \<not> updated_at burger_order < updated_at (burger_order\<lparr>status := CONFIRMED\<rparr>)"
  by (simp add: stored_def update_order_status_def get_order_def order_defs)

text \<open>
  Claim C9. When the store holds no order under the tenant and the order id,
  \<open>update_order_status\<close> raises the 404 and \<open>orders\<close> is as it was.
\<close>

theorem update_unknown_order_not_found:
  assumes "stored orders tenant order_id = None"
  shows "update_order_status orders now order_id new_status tenant =
           (Inl (HTTPException 404 (''Order '' @ order_id @ '' not found'')), orders)"
  using assms by (simp add: update_order_status_def get_order_stored)

text \<open>An unknown order id under a known tenant, and a known order id under another tenant.\<close>

theorem update_unknown_order_not_found_witness:
  "stored burger_orders ''forkflow-demo'' ''o9'' = None
   \<and> update_order_status burger_orders 30 ''o9'' CONFIRMED ''forkflow-demo'' =
       (Inl (HTTPException 404 ''Order o9 not found''), burger_orders)
   \<and> stored burger_orders ''soup-kitchen'' ''o1'' = None
   \<and> update_order_status burger_orders 30 ''o1'' CONFIRMED ''soup-kitchen'' =
       (Inl (HTTPException 404 ''Order o1 not found''), burger_orders)"
proof -
  have a: "stored burger_orders ''forkflow-demo'' ''o9'' = None"
    by (simp add: stored_def order_defs)
  have b: "stored burger_orders ''soup-kitchen'' ''o1'' = None"
    by (simp add: stored_def order_defs)
  from a b
    update_unknown_order_not_found [OF a, of 30 CONFIRMED]
    update_unknown_order_not_found [OF b, of 30 CONFIRMED]
  show ?thesis by simp
qed

text \<open>
  Claim C10. \<open>get_orders\<close> returns a list for every tenant and every store, and the empty
  list for a tenant under which the store holds no order; orders are never removed, so
  that is every tenant for which none was ever stored.
\<close>

theorem list_of_unknown_tenant_is_empty:
  "(\<exists>xs. get_orders orders tenant = Inr xs)
   \<and> ((\<forall>k. stored orders tenant k = None) \<longrightarrow> get_orders orders tenant = Inr [])"
proof (cases "map_of orders tenant")
  case None
  then show ?thesis by (simp add: get_orders_def)
next
  case (Some d)
  then show ?thesis
    by (auto simp: get_orders_def stored_def dest: no_stored_order_empty)
qed

theorem list_of_unknown_tenant_is_empty_witness:
  "(\<forall>k. stored burger_orders ''soup-kitchen'' k = None)
   \<and> get_orders burger_orders ''soup-kitchen'' = Inr []
   \<and> get_orders burger_orders ''forkflow-demo'' = Inr [burger_order]"
proof -
  have h: "\<forall>k. stored burger_orders ''soup-kitchen'' k = None"
    by (simp add: stored_def order_defs)
  have l: "get_orders burger_orders ''forkflow-demo'' = Inr [burger_order]"
    by (simp add: get_orders_def burger_orders_def)
  from h l list_of_unknown_tenant_is_empty [of burger_orders "''soup-kitchen''"]
  show ?thesis by blast
qed

section \<open>Tenants\<close>

text \<open>
  Claim C8. Let an order be created under tenant \<open>A\<close>, and let \<open>B\<close> be another tenant.
  What \<open>get_orders\<close> and \<open>get_order\<close> return under \<open>B\<close> is what they returned before; when
  \<open>B\<close> held no order of that id, \<open>get_order\<close> under \<open>B\<close> raises the 404 for it; and in a store
  that satisfies its invariant the list of \<open>B\<close> does not contain the new order. In the
  catalog, a menu installed under \<open>A\<close> changes no lookup under \<open>B\<close>: an item id that \<open>B\<close>
  does not have is a 404 under \<open>B\<close>, also when \<open>A\<close> has an item of that id.
\<close>

theorem cross_tenant_isolation:
  assumes ne: "A \<noteq> B"
    and c: "create_order F get order_id now request A orders = (Inr order, sent, orders')"
  shows "get_orders orders' B = get_orders orders B
       \<and> (\<forall>k. get_order orders' k B = get_order orders k B)
       \<and> (stored orders B order_id = None \<longrightarrow>
            get_order orders' order_id B =
              Inl (HTTPException 404 (''Order '' @ order_id @ '' not found'')))
       \<and> (store_inv orders \<longrightarrow> (\<forall>xs. get_orders orders' B = Inr xs \<longrightarrow> order \<notin> set xs))
       \<and> get_menu_item (AList.update A its menu_items) x B = get_menu_item menu_items x B
       \<and> (map_of menu_items B = None \<longrightarrow>
            get_menu_item (AList.update A its menu_items) x B =
              Inl (HTTPException 404 (''No menu for tenant: '' @ B)))
       \<and> (\<forall>its_B. map_of menu_items B = Some its_B \<and> next_item x its_B = Inr None \<longrightarrow>
            get_menu_item (AList.update A its menu_items) x B =
              Inl (HTTPException 404 (''Item '' @ x @ '' not found'')))"
proof -
  from create_order_cases [OF c]
  have st: "orders' = store_order A order_id order orders" and t: "tenant_id order = A"
    by auto
  from ne have ne': "B \<noteq> A" by simp
  have l: "get_orders orders' B = get_orders orders B"
    using ne' by (simp add: st get_orders_store_order_other)
  have g: "\<forall>k. get_order orders' k B = get_order orders k B"
    using ne' by (simp add: st get_order_stored stored_store_order)
  have n: "stored orders B order_id = None \<longrightarrow>
      get_order orders' order_id B = Inl (HTTPException 404 (''Order '' @ order_id @ '' not found''))"
    using ne' by (simp add: st get_order_stored stored_store_order)
  have i: "store_inv orders \<longrightarrow> (\<forall>xs. get_orders orders' B = Inr xs \<longrightarrow> order \<notin> set xs)"
  proof (intro impI allI notI)
    fix xs
    assume inv: "store_inv orders" and xs: "get_orders orders' B = Inr xs" and m: "order \<in> set xs"
    from xs l have "get_orders orders B = Inr xs" by simp
    with m obtain d where "map_of orders B = Some d" "order \<in> set (map snd d)"
      by (auto simp: get_orders_def split: option.splits)
    with inv have "tenant_id order = B" by (rule store_inv_listed)
    with t ne show False by simp
  qed
  have m: "get_menu_item (AList.update A its menu_items) x B = get_menu_item menu_items x B"
    using ne by (rule get_menu_item_other_tenant)
  have m1: "map_of menu_items B = None \<longrightarrow>
      get_menu_item (AList.update A its menu_items) x B =
        Inl (HTTPException 404 (''No menu for tenant: '' @ B))"
    by (simp add: m) (simp add: get_menu_item_def)
  have m2: "\<forall>its_B. map_of menu_items B = Some its_B \<and> next_item x its_B = Inr None \<longrightarrow>
      get_menu_item (AList.update A its menu_items) x B =
        Inl (HTTPException 404 (''Item '' @ x @ '' not found''))"
    by (simp add: m) (auto simp: get_menu_item_def)
  from l g n i m m1 m2 show ?thesis by blast
qed

text \<open>
  The burger order is created under \<open>forkflow-demo\<close>. Under \<open>soup-kitchen\<close> the list is
  empty and the order id is a 404; a burger installed in the menu of \<open>forkflow-demo\<close> is
  found there and is a 404 under \<open>soup-kitchen\<close>, whose menu has a soup only.
\<close>

theorem cross_tenant_isolation_witness:
  "''forkflow-demo'' \<noteq> ''soup-kitchen''
   \<and> create_order exact_ops sample_client ''o1'' 10 burger_request ''forkflow-demo'' [] =
       (Inr burger_order, [''burger-001''], burger_orders)
   \<and> store_inv ([] :: rat orders)
   \<and> store_inv burger_orders
   \<and> get_order burger_orders ''o1'' ''forkflow-demo'' = Inr burger_order
   \<and> get_orders burger_orders ''soup-kitchen'' = Inr []
   \<and> get_order burger_orders ''o1'' ''soup-kitchen'' =
       Inl (HTTPException 404 ''Order o1 not found'')
   \<and> get_menu_item (AList.update ''forkflow-demo'' [burger_item] soup_menu)
        ''burger-001'' ''forkflow-demo'' = Inr burger_item
   \<and> get_menu_item (AList.update ''forkflow-demo'' [burger_item] soup_menu)
        ''burger-001'' ''soup-kitchen'' =
       Inl (HTTPException 404 ''Item burger-001 not found'')"
proof -
  have ne: "''forkflow-demo'' \<noteq> ''soup-kitchen''"
    by simp
  have c: "create_order exact_ops sample_client ''o1'' 10 burger_request ''forkflow-demo'' [] =
      (Inr burger_order, [''burger-001''], burger_orders)"
    by (simp add: handler_defs catalog_defs line_defs request_defs order_defs)
  have v: "store_inv ([] :: rat orders)"
    by (rule store_inv_Nil)
  have w: "store_inv burger_orders"
    by (simp add: store_inv_def order_defs)
  have a: "get_order burger_orders ''o1'' ''forkflow-demo'' = Inr burger_order"
    by (simp add: get_order_def burger_orders_def)
  have s: "stored [] ''soup-kitchen'' ''o1'' = (None :: rat Order option)"
    by (simp add: stored_def)
  have l: "get_orders [] ''soup-kitchen'' = (Inr [] :: exn + rat Order list)"
    by (simp add: get_orders_def)
  have b: "get_menu_item (AList.update ''forkflow-demo'' [burger_item] soup_menu)
      ''burger-001'' ''forkflow-demo'' = Inr burger_item"
    by (simp add: get_menu_item_def soup_menu_def burger_item_def)
  have m: "map_of soup_menu ''soup-kitchen'' = Some [soup_item]
    \<and> next_item ''burger-001'' [soup_item] = Inr None"
    by (simp add: soup_menu_def soup_item_def)
  note t = cross_tenant_isolation [OF ne c, where menu_items = soup_menu
      and x = "''burger-001''" and its = "[burger_item]"]
  from t have "get_orders burger_orders ''soup-kitchen'' = get_orders [] ''soup-kitchen''"
    by (rule conjunct1)
  with l have l': "get_orders burger_orders ''soup-kitchen'' = Inr []"
    by simp
  from t s have "get_order burger_orders ''o1'' ''soup-kitchen'' =
      Inl (HTTPException 404 (''Order '' @ ''o1'' @ '' not found''))"
    by blast
  then have g: "get_order burger_orders ''o1'' ''soup-kitchen'' =
      Inl (HTTPException 404 ''Order o1 not found'')"
    by simp
  from t m have "get_menu_item (AList.update ''forkflow-demo'' [burger_item] soup_menu)
      ''burger-001'' ''soup-kitchen'' =
      Inl (HTTPException 404 (''Item '' @ ''burger-001'' @ '' not found''))"
    by blast
  then have i: "get_menu_item (AList.update ''forkflow-demo'' [burger_item] soup_menu)
      ''burger-001'' ''soup-kitchen'' = Inl (HTTPException 404 ''Item burger-001 not found'')"
    by simp
  from ne c v w a l' g b i show ?thesis by (intro conjI)
qed

end
